theory Spec2Isabelle
  imports Main
begin

section \<open>Data model\<close>

text \<open>
  The program is a reverse proxy assembled from \<^verbatim>\<open>http.Handler\<close> values
  (\<^verbatim>\<open>src/main.go\<close>). A handler acts on a response writer \<open>w\<close> and a request
  \<open>r\<close>, and may write to the process log. The state a handler can change is kept in one
  record that is passed in and returned: the response header map, the status passed to
  \<^verbatim>\<open>WriteHeader\<close>, the body written so far, and the lines given to \<^verbatim>\<open>log.Println\<close>.
\<close>

type_synonym Header = "string \<rightharpoonup> string list"

record ResponseWriter =
  w_Header :: Header
  w_status :: "nat option"
  w_body :: string
  w_log :: "string list"

record URL =
  url_Scheme :: string
  url_Host :: string
  url_Path :: string

record Request =
  r_Header :: Header
  r_URL :: URL
  r_Host :: string
  r_Context :: "string \<rightharpoonup> string"

text \<open>
  A handler either returns, leaving the writer in some state, or panics with a Go run-time
  error (\<^verbatim>\<open>net/http\<close> recovers the panic and drops the connection: no response
  is completed).
\<close>

datatype outcome = Returned ResponseWriter | Panicked string

type_synonym Handler = "ResponseWriter \<Rightarrow> Request \<Rightarrow> outcome"

text \<open>\<^verbatim>\<open>type Middleware func(http.Handler) http.Handler\<close>; a nil middleware is \<open>None\<close>.\<close>

type_synonym Middleware = "Handler \<Rightarrow> Handler"

subsection \<open>The parts of the Go library the handlers call\<close>

text \<open>\<^verbatim>\<open>http.Header\<close>: \<open>Get\<close> is the first value of the key or the empty string,
  \<open>Add\<close> appends a value, \<open>Set\<close> replaces the values. Keys are in canonical form.\<close>

definition Header_Get :: "Header \<Rightarrow> string \<Rightarrow> string" where
  "Header_Get hs key = (case hs key of None \<Rightarrow> [] | Some [] \<Rightarrow> [] | Some (v # _) \<Rightarrow> v)"

definition Header_Add :: "Header \<Rightarrow> string \<Rightarrow> string \<Rightarrow> Header" where
  "Header_Add hs key v = hs(key \<mapsto> (case hs key of None \<Rightarrow> [] | Some vs \<Rightarrow> vs) @ [v])"

definition Header_Set :: "Header \<Rightarrow> string \<Rightarrow> string \<Rightarrow> Header" where
  "Header_Set hs key v = hs(key \<mapsto> [v])"

definition log_Println :: "ResponseWriter \<Rightarrow> string \<Rightarrow> ResponseWriter" where
  "log_Println w msg = w\<lparr>w_log := w_log w @ [msg]\<rparr>"

definition StatusUnauthorized :: nat where
  "StatusUnauthorized = 401"

text \<open>\<^verbatim>\<open>http.Error(w, msg, code)\<close>: plain-text content type, the status, the message and
  a newline as the body. It touches no other header.\<close>

definition http_Error :: "ResponseWriter \<Rightarrow> string \<Rightarrow> nat \<Rightarrow> ResponseWriter" where
  "http_Error w msg code =
     w\<lparr>w_Header := Header_Set (Header_Set (w_Header w) ''Content-Type'' ''text/plain; charset=utf-8'')
                     ''X-Content-Type-Options'' ''nosniff'',
       w_status := Some code,
       w_body := w_body w @ msg @ [CHR 0x0A]\<rparr>"

text \<open>\<^verbatim>\<open>r.WithContext(context.WithValue(r.Context(), key, val))\<close>.\<close>

definition WithValue :: "Request \<Rightarrow> string \<Rightarrow> string \<Rightarrow> Request" where
  "WithValue r key val = r\<lparr>r_Context := (r_Context r)(key \<mapsto> val)\<rparr>"

subsection \<open>Strings\<close>

text \<open>\<^verbatim>\<open>strings.Split(s, sep)\<close> for a separator of one byte, as both calls of the
  program have it: the pieces between the occurrences of \<open>sep\<close>, one more than there are
  occurrences, so never an empty list.\<close>

fun Split :: "string \<Rightarrow> char \<Rightarrow> string list" where
  "Split [] sep = [[]]"
| "Split (c # cs) sep =
     (if c = sep then [] # Split cs sep
      else (case Split cs sep of [] \<Rightarrow> [[c]] | x # xs \<Rightarrow> (c # x) # xs))"

text \<open>\<^verbatim>\<open>strings.HasPrefix\<close> and \<^verbatim>\<open>strings.TrimPrefix\<close>.\<close>

definition HasPrefix :: "string \<Rightarrow> string \<Rightarrow> bool" where
  "HasPrefix s p = (length p \<le> length s \<and> take (length p) s = p)"

definition TrimPrefix :: "string \<Rightarrow> string \<Rightarrow> string" where
  "TrimPrefix s p = (if HasPrefix s p then drop (length p) s else s)"

text \<open>Indexing a slice: out of range is a run-time panic.\<close>

definition index :: "'a list \<Rightarrow> nat \<Rightarrow> string + 'a" where
  "index xs i = (if i < length xs then Inr (xs ! i) else Inl ''index out of range'')"

subsection \<open>Base64, standard encoding\<close>

text \<open>
  \<^verbatim>\<open>encoding/base64\<close>, \<^verbatim>\<open>StdEncoding\<close>: the alphabet of RFC 4648 with \<open>=\<close>
  padding. \<open>EncodeToString\<close> is what a client applies to \<open>user:password\<close>;
  \<open>DecodeString\<close> is what \<open>BasicAuth\<close> calls. The decoder reads quanta of four
  characters, skipping carriage returns and line feeds, and stops at the first corrupt
  quantum; the program discards its error value (\<^verbatim>\<open>authvaluesStr, _ :=\<close>), so the model
  returns only the bytes decoded up to there.
\<close>

definition encodeStd :: string where
  "encodeStd = ''ABCDEFGHIJKLMNOPQRSTUVWXYZabcdefghijklmnopqrstuvwxyz0123456789+/''"

fun index_of :: "'a \<Rightarrow> 'a list \<Rightarrow> nat option" where
  "index_of c [] = None"
| "index_of c (x # xs) = (if x = c then Some 0 else map_option Suc (index_of c xs))"

definition decodeMap :: "char \<Rightarrow> nat option" where
  "decodeMap c = index_of c encodeStd"

fun EncodeToString :: "string \<Rightarrow> string" where
  "EncodeToString (a # b # c # rest) =
     (let val = of_char a * 65536 + of_char b * 256 + (of_char c :: nat) in
      [encodeStd ! (val div 262144), encodeStd ! (val div 4096 mod 64),
       encodeStd ! (val div 64 mod 64), encodeStd ! (val mod 64)] @ EncodeToString rest)"
| "EncodeToString [a, b] =
     (let val = of_char a * 65536 + (of_char b :: nat) * 256 in
      [encodeStd ! (val div 262144), encodeStd ! (val div 4096 mod 64),
       encodeStd ! (val div 64 mod 64), CHR ''=''])"
| "EncodeToString [a] =
     (let val = (of_char a :: nat) * 65536 in
      [encodeStd ! (val div 262144), encodeStd ! (val div 4096 mod 64), CHR ''='', CHR ''=''])"
| "EncodeToString [] = []"

text \<open>The bytes of a quantum by the number of characters decoded for it (\<open>dlen\<close>):
  four give three bytes, three give two, two give one; the characters that are missing
  count as zero.\<close>

fun quantum_bytes :: "nat list \<Rightarrow> string" where
  "quantum_bytes [v0, v1, v2, v3] =
     (let val = v0 * 262144 + v1 * 4096 + v2 * 64 + v3
      in [char_of (val div 65536), char_of (val div 256), char_of val])"
| "quantum_bytes [v0, v1, v2] =
     (let val = v0 * 262144 + v1 * 4096 + v2 * 64
      in [char_of (val div 65536), char_of (val div 256)])"
| "quantum_bytes [v0, v1] =
     (let val = v0 * 262144 + v1 * 4096
      in [char_of (val div 65536)])"
| "quantum_bytes q = []"

definition is_newline :: "char \<Rightarrow> bool" where
  "is_newline c = (c = CHR 0x0A \<or> c = CHR 0x0D)"

text \<open>\<open>Decode q s\<close>: \<open>q\<close> holds the characters of the current quantum decoded so far.\<close>

fun Decode :: "nat list \<Rightarrow> string \<Rightarrow> string" where
  "Decode q [] = []"
| "Decode q (c # cs) =
     (case decodeMap c of
        Some v \<Rightarrow>
          (if length q = 3 then quantum_bytes (q @ [v]) @ Decode [] cs
           else Decode (q @ [v]) cs)
      | None \<Rightarrow>
          (if is_newline c then Decode q cs
           else if c \<noteq> CHR ''='' then []
           else if length q < 2 then []
           else if length q = 2 then
             (case dropWhile is_newline cs of
                [] \<Rightarrow> []
              | d # ds \<Rightarrow> if d \<noteq> CHR ''='' then [] else quantum_bytes q)
           else quantum_bytes q))"

definition DecodeString :: "string \<Rightarrow> string" where
  "DecodeString s = Decode [] s"

section \<open>Chain\<close>

text \<open>
  \<^verbatim>\<open>
  func Chain(h http.Handler, mws ...Middleware) http.Handler {
      for i := len(mws) - 1; i >= 0; i-- {
          if mws[i] != nil { h = mws[i](h) }
      }
      return h
  }
  \<close>
  The loop variable is a signed integer that runs down to \<open>-1\<close>.
\<close>

function Chain_loop :: "Handler \<Rightarrow> Middleware option list \<Rightarrow> int \<Rightarrow> Handler" where
  "Chain_loop h mws i =
     (if i \<ge> 0
      then Chain_loop (case mws ! nat i of None \<Rightarrow> h | Some mw \<Rightarrow> mw h) mws (i - 1)
      else h)"
  by pat_completeness auto
termination
  by (relation "measure (\<lambda>(h, mws, i). nat (i + 1))") auto

definition Chain :: "Handler \<Rightarrow> Middleware option list \<Rightarrow> Handler" where
  "Chain h mws = Chain_loop h mws (int (length mws) - 1)"

text \<open>The middleware values of the slots that are not nil, in declaration order.\<close>

fun present :: "'a option list \<Rightarrow> 'a list" where
  "present [] = []"
| "present (None # ms) = present ms"
| "present (Some m # ms) = m # present ms"

text \<open>The skeleton of the example plug-ins (\<^verbatim>\<open>plugin-examples\<close>): log a line, then
  \<^verbatim>\<open>h.ServeHTTP(w, r)\<close>. It makes the order in which a request meets the stages visible.\<close>

definition LogMiddleware :: "string \<Rightarrow> Middleware" where
  "LogMiddleware msg h = (\<lambda>w r. h (log_Println w msg) r)"

definition apply_slot :: "Middleware option \<Rightarrow> Handler \<Rightarrow> Handler" where
  "apply_slot m h = (case m of None \<Rightarrow> h | Some mw \<Rightarrow> mw h)"

section \<open>BasicAuth\<close>

text \<open>
  The condition of line 52, \<^verbatim>\<open>authValues[0] != login && authValues[1] != password\<close>:
  \<^verbatim>\<open>&&\<close> evaluates its right operand only when the left one is true, and an index
  that is out of range panics.
\<close>

definition mismatch :: "string \<Rightarrow> string \<Rightarrow> string list \<Rightarrow> string + bool" where
  "mismatch login password authValues =
     (case index authValues 0 of
        Inl e \<Rightarrow> Inl e
      | Inr a0 \<Rightarrow>
          if a0 \<noteq> login
          then (case index authValues 1 of
                  Inl e \<Rightarrow> Inl e
                | Inr a1 \<Rightarrow> Inr (a1 \<noteq> password))
          else Inr False)"

text \<open>The handler that \<open>BasicAuth\<close> builds around \<open>h\<close> (lines 39 to 60).\<close>

definition BasicAuth_ServeHTTP :: "string \<Rightarrow> string \<Rightarrow> Handler \<Rightarrow> Handler" where
  "BasicAuth_ServeHTTP login password h w r =
     (let w = log_Println w ''Basic auth'';
          token = Header_Get (r_Header r) ''Authorization'';
          bits = Split token CHR '' ''
      in if length bits \<noteq> 2 then
           Returned (http_Error
             (w\<lparr>w_Header := Header_Add (w_Header w) ''WWW-Authenticate'' ''realm=proxy''\<rparr>)
             ''Basic auth header not found or malformed'' StatusUnauthorized)
         else
           (let authvaluesStr = DecodeString (bits ! 1);
                authValues = Split authvaluesStr CHR '':''
            in case mismatch login password authValues of
                 Inl e \<Rightarrow> Panicked e
               | Inr True \<Rightarrow>
                   Returned (http_Error w ''Basic auth header not found or malformed''
                     StatusUnauthorized)
               | Inr False \<Rightarrow> h w (WithValue r ''Username'' login)))"

definition BasicAuth :: "string \<Rightarrow> string \<Rightarrow> Middleware option" where
  "BasicAuth login password =
     (if login = [] \<or> password = [] then None
      else Some (BasicAuth_ServeHTTP login password))"

section \<open>Loading plug-ins\<close>

text \<open>
  What a plug-in exports under a name, by its dynamic type: the two function types the
  program asserts, or anything else (with the name of its type).
\<close>

datatype Symbol =
  MiddlewareFunc Middleware
| ProxyFunc "URL \<Rightarrow> string \<Rightarrow> Handler"
| OtherSymbol string

datatype error = OpenError string | LookupError string string

text \<open>\<open>log.Fatal\<close> prints and exits: the process never serves.\<close>

datatype fatal =
  CantLoadPlugin string error
| MiddlewareTypeMismatch string
| SignatureMismatch

datatype log_line = Line string | ErrorLine error

text \<open>
  The world outside the process: which paths \<^verbatim>\<open>os.Stat\<close> finds, which files
  \<^verbatim>\<open>plugin.Open\<close> loads and what they export, and what the reverse proxy's transport does
  with an outgoing request (send it upstream and copy the answer to \<open>w\<close>).
\<close>

record Env =
  Stat_ok :: "string \<Rightarrow> bool"
  plugin_Open :: "string \<rightharpoonup> (string \<rightharpoonup> Symbol)"
  forward :: "Request \<Rightarrow> ResponseWriter \<Rightarrow> outcome"

definition LoadPlugin :: "Env \<Rightarrow> string \<Rightarrow> string \<Rightarrow> Symbol option \<times> error option" where
  "LoadPlugin env path symbol =
     (case plugin_Open env path of
        None \<Rightarrow> (None, Some (OpenError path))
      | Some loadedPlugin \<Rightarrow>
          (case loadedPlugin symbol of
             None \<Rightarrow> (None, Some (LookupError symbol path))
           | Some funcSymbol \<Rightarrow> (Some funcSymbol, None)))"

definition LoadPatch :: "Env \<Rightarrow> string \<Rightarrow> string \<Rightarrow> Symbol option \<times> error option" where
  "LoadPatch env component symbol =
     (let plugin_path = ''./patches/'' @ component @ ''.so''
      in if Stat_ok env plugin_path then LoadPlugin env plugin_path symbol
         else (None, None))"

definition LoadMiddlewarePlugin :: "Env \<Rightarrow> string \<Rightarrow> fatal + Middleware option" where
  "LoadMiddlewarePlugin env path =
     (if path = [] then Inr None
      else
        (case LoadPlugin env path ''Middleware'' of
           (symbol, Some err) \<Rightarrow> Inl (CantLoadPlugin path err)
         | (symbol, None) \<Rightarrow>
             (case symbol of
                Some (MiddlewareFunc mw) \<Rightarrow> Inr (Some mw)
              | _ \<Rightarrow> Inl (MiddlewareTypeMismatch path))))"

section \<open>Proxy\<close>

text \<open>
  \<^verbatim>\<open>httputil.ReverseProxy\<close> with a \<open>Director\<close>: the director rewrites the outgoing
  request, the transport forwards it. Both \<open>Proxy\<close> functions replace the director that
  \<^verbatim>\<open>NewSingleHostReverseProxy\<close> installs.
\<close>

definition ReverseProxy ::
  "(Request \<Rightarrow> ResponseWriter \<Rightarrow> outcome) \<Rightarrow> (Request \<Rightarrow> Request) \<Rightarrow> Handler" where
  "ReverseProxy transport Director w r = transport (Director r) w"

text \<open>The director of \<^verbatim>\<open>src/main.go\<close>, lines 123 to 127.\<close>

definition default_Director :: "URL \<Rightarrow> Request \<Rightarrow> Request" where
  "default_Director target r =
     r\<lparr>r_URL := (r_URL r)\<lparr>url_Scheme := url_Scheme target, url_Host := url_Host target\<rparr>,
       r_Host := url_Host target\<rparr>"

text \<open>The director of \<^verbatim>\<open>src/patches/reverse_proxy.go\<close>, lines 12 to 17.\<close>

definition patch_Director :: "URL \<Rightarrow> string \<Rightarrow> Request \<Rightarrow> Request" where
  "patch_Director target prefix r =
     r\<lparr>r_URL := (r_URL r)\<lparr>url_Scheme := url_Scheme target, url_Host := url_Host target,
                          url_Path := TrimPrefix (url_Path (r_URL r)) prefix\<rparr>,
       r_Host := url_Host target\<rparr>"

text \<open>\<open>Proxy\<close> of \<^verbatim>\<open>src/patches/reverse_proxy.go\<close>, given the transport of the
  process that loads it.\<close>

definition patch_Proxy ::
  "(Request \<Rightarrow> ResponseWriter \<Rightarrow> outcome) \<Rightarrow> URL \<Rightarrow> string \<Rightarrow> Handler" where
  "patch_Proxy transport target prefix = ReverseProxy transport (patch_Director target prefix)"

text \<open>\<open>Proxy\<close> of \<^verbatim>\<open>src/main.go\<close>: the lines it logs, and the handler or the fatal exit.\<close>

definition Proxy :: "Env \<Rightarrow> URL \<Rightarrow> string \<Rightarrow> log_line list \<times> (fatal + Handler)" where
  "Proxy env target prefix =
     (case LoadPatch env ''reverse_proxy'' ''Proxy'' of
        (obj, err) \<Rightarrow>
          (let logged = (case err of None \<Rightarrow> [] | Some e \<Rightarrow> [ErrorLine e])
           in case obj of
                Some symb \<Rightarrow>
                  (case symb of
                     ProxyFunc proxy \<Rightarrow>
                       (logged @ [Line ''Loading patched reverse_proxy module''],
                        Inr (proxy target prefix))
                   | _ \<Rightarrow>
                       (logged @ [Line ''Loading patched reverse_proxy module''],
                        Inl SignatureMismatch))
              | None \<Rightarrow> (logged, Inr (ReverseProxy (forward env) (default_Director target)))))"

section \<open>main\<close>

text \<open>
  Line 150: \<^verbatim>\<open>Chain(Proxy(rpURL, prefix), LoadMiddlewarePlugin(prePlugin),
  BasicAuth(basicUser, basicPassword), LoadMiddlewarePlugin(postPlugin))\<close>, the arguments
  evaluated from left to right. \<open>Inr\<close> is the handler that \<^verbatim>\<open>ListenAndServe\<close> serves;
  \<open>Inl\<close> is a fatal exit before serving.
\<close>

definition main_handler ::
  "Env \<Rightarrow> URL \<Rightarrow> string \<Rightarrow> string \<Rightarrow> string \<Rightarrow> string \<Rightarrow> string \<Rightarrow> fatal + Handler" where
  "main_handler env rpURL prefix basicUser basicPassword prePlugin postPlugin =
     (case snd (Proxy env rpURL prefix) of
        Inl f \<Rightarrow> Inl f
      | Inr proxy \<Rightarrow>
          (case LoadMiddlewarePlugin env prePlugin of
             Inl f \<Rightarrow> Inl f
           | Inr pre \<Rightarrow>
               (case LoadMiddlewarePlugin env postPlugin of
                  Inl f \<Rightarrow> Inl f
                | Inr post \<Rightarrow>
                    Inr (Chain proxy [pre, BasicAuth basicUser basicPassword, post]))))"

section \<open>Example inputs\<close>

text \<open>A request as the server hands it to the handlers, with one \<open>Authorization\<close>
  header, and a response writer nothing has been written to. They are the concrete inputs
  of the examples below.\<close>

definition request_with_Authorization :: "string \<Rightarrow> Request" where
  "request_with_Authorization token =
     \<lparr>r_Header = [''Authorization'' \<mapsto> [token]],
      r_URL = \<lparr>url_Scheme = [], url_Host = [], url_Path = ''/get''\<rparr>,
      r_Host = ''localhost:9090'',
      r_Context = Map.empty\<rparr>"

definition fresh_ResponseWriter :: ResponseWriter where
  "fresh_ResponseWriter = \<lparr>w_Header = Map.empty, w_status = None, w_body = [], w_log = []\<rparr>"

text \<open>A request for a path; an upstream that answers with the path it was asked for; a
  world with no patch on disk, and one where \<^verbatim>\<open>./patches/reverse_proxy.so\<close> is the
  compiled \<^verbatim>\<open>src/patches/reverse_proxy.go\<close>.\<close>

definition request_to :: "string \<Rightarrow> Request" where
  "request_to path =
     \<lparr>r_Header = Map.empty,
      r_URL = \<lparr>url_Scheme = [], url_Host = [], url_Path = path\<rparr>,
      r_Host = ''localhost:9090'',
      r_Context = Map.empty\<rparr>"

definition echo_path :: "Request \<Rightarrow> ResponseWriter \<Rightarrow> outcome" where
  "echo_path r w = Returned (w\<lparr>w_status := Some 200, w_body := url_Path (r_URL r)\<rparr>)"

definition env_without_patch :: Env where
  "env_without_patch =
     \<lparr>Stat_ok = (\<lambda>p. False), plugin_Open = Map.empty, forward = echo_path\<rparr>"

definition env_with_patch :: Env where
  "env_with_patch =
     \<lparr>Stat_ok = (\<lambda>p. p = ''./patches/reverse_proxy.so''),
      plugin_Open = [''./patches/reverse_proxy.so'' \<mapsto>
                       [''Proxy'' \<mapsto> ProxyFunc (patch_Proxy echo_path)]],
      forward = echo_path\<rparr>"

section \<open>Properties of Chain\<close>

lemmas Chain_loop_unfold = Chain_loop.simps

declare Chain_loop.simps [simp del]

lemma Chain_loop_take:
  "k \<le> length mws \<Longrightarrow> Chain_loop h mws (int k - 1) = foldr apply_slot (take k mws) h"
proof (induction k arbitrary: h)
  case 0
  show ?case by (simp add: Chain_loop_unfold [of h mws "-1"])
next
  case (Suc k)
  then have k: "k < length mws" and k': "k \<le> length mws" by simp_all
  have "Chain_loop h mws (int (Suc k) - 1) = Chain_loop (apply_slot (mws ! k) h) mws (int k - 1)"
    by (subst Chain_loop_unfold) (simp add: apply_slot_def)
  also have "\<dots> = foldr apply_slot (take k mws) (apply_slot (mws ! k) h)"
    by (rule Suc.IH [OF k'])
  also have "\<dots> = foldr apply_slot (take (Suc k) mws) h"
    by (simp add: take_Suc_conv_app_nth [OF k])
  finally show ?case .
qed

lemma Chain_foldr: "Chain h mws = foldr apply_slot mws h"
  using Chain_loop_take [of "length mws" mws h] by (simp add: Chain_def)

lemma Chain_Nil: "Chain h [] = h"
  by (simp add: Chain_foldr)

lemma Chain_Some: "Chain h (Some mw # mws) = mw (Chain h mws)"
  by (simp add: Chain_foldr apply_slot_def)

lemma Chain_None: "Chain h (None # mws) = Chain h mws"
  by (simp add: Chain_foldr apply_slot_def)

lemma Chain_present: "Chain h mws = foldr (\<lambda>mw k. mw k) (present mws) h"
  by (induction mws rule: present.induct) (simp_all add: Chain_Nil Chain_Some Chain_None)

lemma Chain_append: "Chain h (xs @ ys) = Chain (Chain h ys) xs"
  by (simp add: Chain_foldr)

lemma Chain_LogMiddleware:
  "Chain h (map (map_option LogMiddleware) slots) w r
     = h (w\<lparr>w_log := w_log w @ present slots\<rparr>) r"
proof (induction slots arbitrary: w rule: present.induct)
  case 1
  show ?case by (simp add: Chain_Nil)
next
  case (2 ms)
  then show ?case by (simp add: Chain_None)
next
  case (3 m ms)
  show ?case
    by (simp add: Chain_Some LogMiddleware_def [of m] log_Println_def "3.IH")
qed

section \<open>Properties of the base64 model\<close>

lemma sextets_recompose:
  "val div 262144 * 262144 + val div 4096 mod 64 * 4096 + val div 64 mod 64 * 64 + val mod 64
     = (val::nat)"
proof -
  have e1: "val div 4096 = val div 64 div 64"
    using div_mult2_eq [of val 64 64] by simp
  have e2: "val div 262144 = val div 4096 div 64"
    using div_mult2_eq [of val 4096 64] by simp
  have d1: "val = val div 64 * 64 + val mod 64" by simp
  have d2: "val div 64 = val div 4096 * 64 + val div 64 mod 64"
    unfolding e1 by simp
  have d3: "val div 4096 = val div 262144 * 64 + val div 4096 mod 64"
    unfolding e2 by simp
  show ?thesis using d1 d2 d3 by linarith
qed

lemma char_of_shift: "char_of (x * 256 + (y::nat)) = char_of y"
proof -
  have "char_of (x * 256 + y) = char_of ((x * 256 + y) mod 256)"
    by (simp only: char_of_mod_256)
  then show ?thesis by simp
qed

lemma bytes_of_val:
  assumes "a < 256" "b < 256" "c < 256" "val = a * 65536 + b * 256 + (c::nat)"
  shows "val div 65536 = a" and "val div 256 = a * 256 + b"
proof -
  have "val = a * 65536 + (b * 256 + c)" using assms by simp
  moreover have "b * 256 + c < 65536" using assms by linarith
  ultimately show "val div 65536 = a" by simp
  have "val = (a * 256 + b) * 256 + c" using assms by simp
  then show "val div 256 = a * 256 + b" using assms by simp
qed

lemma decodeMap_all: "list_all (\<lambda>i. decodeMap (encodeStd ! i) = Some i) [0..<64]"
  by code_simp

lemma decodeMap_encodeStd: "i < 64 \<Longrightarrow> decodeMap (encodeStd ! i) = Some i"
  using decodeMap_all by (simp add: list_all_iff)

lemma encodeStd_no_space_all: "list_all (\<lambda>i. encodeStd ! i \<noteq> CHR '' '') [0..<64]"
  by code_simp

lemma encodeStd_no_space: "i < 64 \<Longrightarrow> encodeStd ! i \<noteq> CHR '' ''"
  using encodeStd_no_space_all by (simp add: list_all_iff)

lemma decodeMap_pad: "decodeMap CHR ''='' = None"
  by code_simp

lemma not_newline_pad: "\<not> is_newline CHR ''=''"
  by (simp add: is_newline_def)

lemma Decode_quad:
  "decodeMap c0 = Some v0 \<Longrightarrow> decodeMap c1 = Some v1 \<Longrightarrow> decodeMap c2 = Some v2 \<Longrightarrow>
   decodeMap c3 = Some v3 \<Longrightarrow>
   Decode [] (c0 # c1 # c2 # c3 # cs) = quantum_bytes [v0, v1, v2, v3] @ Decode [] cs"
  by simp

lemma Decode_three_pad:
  "decodeMap c0 = Some v0 \<Longrightarrow> decodeMap c1 = Some v1 \<Longrightarrow> decodeMap c2 = Some v2 \<Longrightarrow>
   Decode [] [c0, c1, c2, CHR ''=''] = quantum_bytes [v0, v1, v2]"
  by (simp add: decodeMap_pad not_newline_pad)

lemma Decode_two_pad:
  "decodeMap c0 = Some v0 \<Longrightarrow> decodeMap c1 = Some v1 \<Longrightarrow>
   Decode [] [c0, c1, CHR ''='', CHR ''=''] = quantum_bytes [v0, v1]"
  by (simp add: decodeMap_pad not_newline_pad)

lemma div64_less: "(val::nat) < 16777216 \<Longrightarrow> val div 262144 < 64"
  by (simp add: less_mult_imp_div_less)

declare quantum_bytes.simps [simp del]

lemma val_bound:
  "a < 256 \<Longrightarrow> b < 256 \<Longrightarrow> c < 256 \<Longrightarrow> a * 65536 + b * 256 + (c::nat) < 16777216"
  by linarith

lemma chars_of_val:
  fixes a b c :: char
  assumes val: "val = of_char a * 65536 + of_char b * 256 + (of_char c :: nat)"
  shows "char_of (val div 65536) = a" and "char_of (val div 256) = b" and "char_of val = c"
proof -
  have ba: "of_char a < (256::nat)" and bb: "of_char b < (256::nat)" and bc: "of_char c < (256::nat)"
    by simp_all
  have d1: "val div 65536 = of_char a" and d2: "val div 256 = of_char a * 256 + of_char b"
    using bytes_of_val [OF ba bb bc val] by blast+
  show "char_of (val div 65536) = a" by (simp only: d1 char_of_char)
  show "char_of (val div 256) = b" by (simp only: d2 char_of_shift char_of_char)
  have "val = (of_char a * 256 + of_char b) * 256 + of_char c" unfolding val by simp
  then show "char_of val = c" by (simp only: char_of_shift char_of_char)
qed

lemma roundtrip3:
  fixes a b c :: char
  assumes val: "val = of_char a * 65536 + of_char b * 256 + (of_char c :: nat)"
  shows "Decode [] (encodeStd ! (val div 262144) # encodeStd ! (val div 4096 mod 64) #
            encodeStd ! (val div 64 mod 64) # encodeStd ! (val mod 64) # cs)
         = a # b # c # Decode [] cs"
proof -
  have lt: "val < 16777216" unfolding val by (rule val_bound) simp_all
  have v0: "val div 262144 < 64" by (rule div64_less [OF lt])
  have dec: "Decode [] (encodeStd ! (val div 262144) # encodeStd ! (val div 4096 mod 64) #
            encodeStd ! (val div 64 mod 64) # encodeStd ! (val mod 64) # cs)
       = quantum_bytes [val div 262144, val div 4096 mod 64, val div 64 mod 64, val mod 64]
           @ Decode [] cs"
    by (rule Decode_quad) (simp_all add: decodeMap_encodeStd v0)
  have q: "quantum_bytes [val div 262144, val div 4096 mod 64, val div 64 mod 64, val mod 64]
       = [char_of (val div 65536), char_of (val div 256), char_of val]"
    by (simp only: quantum_bytes.simps Let_def sextets_recompose)
  show ?thesis by (simp only: dec q chars_of_val [OF val]) simp
qed

lemma roundtrip2:
  fixes a b :: char
  assumes val: "val = of_char a * 65536 + (of_char b :: nat) * 256"
  shows "Decode [] [encodeStd ! (val div 262144), encodeStd ! (val div 4096 mod 64),
            encodeStd ! (val div 64 mod 64), CHR ''='']
         = [a, b]"
proof -
  have val': "val = of_char a * 65536 + of_char b * 256 + (of_char (CHR 0x00) :: nat)"
    unfolding val by simp
  have lt: "val < 16777216" unfolding val' by (rule val_bound) simp_all
  have v0: "val div 262144 < 64" by (rule div64_less [OF lt])
  have "val = (of_char a * 1024 + of_char b * 4) * 64" unfolding val by simp
  then have m: "val mod 64 = 0" by simp
  have dec: "Decode [] [encodeStd ! (val div 262144), encodeStd ! (val div 4096 mod 64),
            encodeStd ! (val div 64 mod 64), CHR ''='']
       = quantum_bytes [val div 262144, val div 4096 mod 64, val div 64 mod 64]"
    by (rule Decode_three_pad) (simp_all add: decodeMap_encodeStd v0)
  have "val div 262144 * 262144 + val div 4096 mod 64 * 4096 + val div 64 mod 64 * 64 = val"
    using sextets_recompose [of val] m by simp
  then have q: "quantum_bytes [val div 262144, val div 4096 mod 64, val div 64 mod 64]
       = [char_of (val div 65536), char_of (val div 256)]"
    by (simp only: quantum_bytes.simps Let_def)
  show ?thesis by (simp only: dec q chars_of_val [OF val'])
qed

lemma roundtrip1:
  fixes a :: char
  assumes val: "val = (of_char a :: nat) * 65536"
  shows "Decode [] [encodeStd ! (val div 262144), encodeStd ! (val div 4096 mod 64),
            CHR ''='', CHR ''='']
         = [a]"
proof -
  have val': "val = of_char a * 65536 + of_char (CHR 0x00) * 256 + (of_char (CHR 0x00) :: nat)"
    unfolding val by simp
  have lt: "val < 16777216" unfolding val' by (rule val_bound) simp_all
  have v0: "val div 262144 < 64" by (rule div64_less [OF lt])
  have "val = (of_char a * 1024) * 64" unfolding val by simp
  then have m: "val mod 64 = 0" and d: "val div 64 = of_char a * 16 * 64" by simp_all
  have m2: "val div 64 mod 64 = 0" unfolding d by simp
  have dec: "Decode [] [encodeStd ! (val div 262144), encodeStd ! (val div 4096 mod 64),
            CHR ''='', CHR ''='']
       = quantum_bytes [val div 262144, val div 4096 mod 64]"
    by (rule Decode_two_pad) (simp_all add: decodeMap_encodeStd v0)
  have "val div 262144 * 262144 + val div 4096 mod 64 * 4096 = val"
    using sextets_recompose [of val] m m2 by simp
  then have q: "quantum_bytes [val div 262144, val div 4096 mod 64]
       = [char_of (val div 65536)]"
    by (simp only: quantum_bytes.simps Let_def)
  show ?thesis by (simp only: dec q chars_of_val [OF val'])
qed

lemma Decode_EncodeToString: "Decode [] (EncodeToString s) = s"
proof (induction s rule: EncodeToString.induct)
  case (1 a b c rest)
  show ?case
    by (simp only: EncodeToString.simps Let_def append_Cons append_Nil roundtrip3 [OF refl] "1.IH")
next
  case (2 a b)
  show ?case by (simp only: EncodeToString.simps Let_def roundtrip2 [OF refl])
next
  case (3 a)
  show ?case by (simp only: EncodeToString.simps Let_def roundtrip1 [OF refl])
next
  case 4
  show ?case by simp
qed

lemma DecodeString_EncodeToString: "DecodeString (EncodeToString s) = s"
  by (simp only: DecodeString_def Decode_EncodeToString)

section \<open>Properties of BasicAuth\<close>

lemma Split_not_Nil: "Split s sep \<noteq> []"
  by (induction s) (auto split: list.splits)

lemma Split_no_sep: "sep \<notin> set s \<Longrightarrow> Split s sep = [s]"
  by (induction s) auto

lemma Split_append_sep:
  "sep \<notin> set u \<Longrightarrow> Split (u @ sep # rest) sep = u # Split rest sep"
  by (induction u) auto

lemma Split_first_no_sep: "sep \<notin> set (Split s sep ! 0)"
proof (induction s)
  case Nil
  show ?case by simp
next
  case (Cons c cs)
  then show ?case by (cases "Split cs sep") (auto simp: Split_not_Nil)
qed

lemma mismatch_first_matches:
  "vals \<noteq> [] \<Longrightarrow> vals ! 0 = login \<Longrightarrow> mismatch login password vals = Inr False"
  by (simp add: mismatch_def index_def)

lemma mismatch_second_matches:
  "1 < length vals \<Longrightarrow> vals ! 1 = password \<Longrightarrow>
   mismatch login password vals = Inr False"
  by (auto simp: mismatch_def index_def)

lemma mismatch_both_differ:
  "1 < length vals \<Longrightarrow> vals ! 0 \<noteq> login \<Longrightarrow> vals ! 1 \<noteq> password \<Longrightarrow>
   mismatch login password vals = Inr True"
  by (auto simp: mismatch_def index_def)

lemma mismatch_no_second:
  "length vals = 1 \<Longrightarrow> vals ! 0 \<noteq> login \<Longrightarrow>
   mismatch login password vals = Inl ''index out of range''"
  by (simp add: mismatch_def index_def)

lemma mismatch_True_iff:
  "mismatch login password vals = Inr True
     \<longleftrightarrow> 1 < length vals \<and> vals ! 0 \<noteq> login \<and> vals ! 1 \<noteq> password"
  by (auto simp: mismatch_def index_def)

lemma BasicAuth_Some:
  "login \<noteq> [] \<Longrightarrow> password \<noteq> [] \<Longrightarrow>
   BasicAuth login password = Some (BasicAuth_ServeHTTP login password)"
  by (simp add: BasicAuth_def)

lemma BasicAuth_two_tokens:
  assumes "Split (Header_Get (r_Header r) ''Authorization'') CHR '' '' = [scheme, cred]"
  shows "BasicAuth_ServeHTTP login password h w r =
     (case mismatch login password (Split (DecodeString cred) CHR '':'') of
        Inl e \<Rightarrow> Panicked e
      | Inr True \<Rightarrow>
          Returned (http_Error (log_Println w ''Basic auth'')
            ''Basic auth header not found or malformed'' StatusUnauthorized)
      | Inr False \<Rightarrow> h (log_Println w ''Basic auth'') (WithValue r ''Username'' login))"
  by (simp add: BasicAuth_ServeHTTP_def Let_def assms)

lemma BasicAuth_not_two_tokens:
  assumes "length (Split (Header_Get (r_Header r) ''Authorization'') CHR '' '') \<noteq> 2"
  shows "BasicAuth_ServeHTTP login password h w r =
     Returned (http_Error
       ((log_Println w ''Basic auth'')
          \<lparr>w_Header := Header_Add (w_Header (log_Println w ''Basic auth''))
                          ''WWW-Authenticate'' ''realm=proxy''\<rparr>)
       ''Basic auth header not found or malformed'' StatusUnauthorized)"
  using assms by (simp add: BasicAuth_ServeHTTP_def Let_def)

lemma Authorization_of_request [simp]:
  "Header_Get (r_Header (request_with_Authorization token)) ''Authorization'' = token"
  by (simp add: request_with_Authorization_def Header_Get_def)

lemma sextet_no_space:
  fixes a b c :: char
  assumes val: "val = of_char a * 65536 + of_char b * 256 + (of_char c :: nat)"
  shows "encodeStd ! (val div 262144) \<noteq> CHR '' ''"
    and "encodeStd ! (val div 4096 mod 64) \<noteq> CHR '' ''"
    and "encodeStd ! (val div 64 mod 64) \<noteq> CHR '' ''"
    and "encodeStd ! (val mod 64) \<noteq> CHR '' ''"
proof -
  have lt: "val < 16777216" unfolding val by (rule val_bound) simp_all
  show "encodeStd ! (val div 262144) \<noteq> CHR '' ''"
    by (rule encodeStd_no_space [OF div64_less [OF lt]])
  show "encodeStd ! (val div 4096 mod 64) \<noteq> CHR '' ''"
    by (rule encodeStd_no_space) simp
  show "encodeStd ! (val div 64 mod 64) \<noteq> CHR '' ''"
    by (rule encodeStd_no_space) simp
  show "encodeStd ! (val mod 64) \<noteq> CHR '' ''"
    by (rule encodeStd_no_space) simp
qed

lemma EncodeToString_no_space: "CHR '' '' \<notin> set (EncodeToString s)"
proof (induction s rule: EncodeToString.induct)
  case (1 a b c rest)
  show ?case
    using "1.IH" sextet_no_space [OF refl, of a b c]
    by (simp add: Let_def)
next
  case (2 a b)
  show ?case
    using sextet_no_space [OF refl, of a b "CHR 0x00"]
    by (simp add: Let_def)
next
  case (3 a)
  show ?case
    using sextet_no_space [OF refl, of a "CHR 0x00" "CHR 0x00"]
    by (simp add: Let_def)
next
  case 4
  show ?case by simp
qed

lemma Split_Basic:
  "Split (''Basic '' @ EncodeToString s) CHR '' '' = [''Basic'', EncodeToString s]"
proof -
  have "Split (''Basic'' @ CHR '' '' # EncodeToString s) CHR '' ''
          = ''Basic'' # Split (EncodeToString s) CHR '' ''"
    by (rule Split_append_sep) simp
  then show ?thesis
    by (simp add: Split_no_sep [OF EncodeToString_no_space])
qed

subsection \<open>The example requests\<close>

lemma Encode_user_wrong: "EncodeToString ''user:wrong'' = ''dXNlcjp3cm9uZw==''"
  by (simp add: encodeStd_def)

lemma Encode_user_pass: "EncodeToString ''user:pass'' = ''dXNlcjpwYXNz''"
  by (simp add: encodeStd_def)

lemma Encode_x_y: "EncodeToString ''x:y'' = ''eDp5''"
  by (simp add: encodeStd_def)

lemma Encode_nocolon: "EncodeToString ''nocolon'' = ''bm9jb2xvbg==''"
  by (simp add: encodeStd_def)

lemma Encode_user: "EncodeToString ''user'' = ''dXNlcg==''"
  by (simp add: encodeStd_def)

lemma Encode_a_b_c: "EncodeToString ''a:b:c'' = ''YTpiOmM=''"
  by (simp add: encodeStd_def)

lemma Decode_user_wrong: "DecodeString ''dXNlcjp3cm9uZw=='' = ''user:wrong''"
  using DecodeString_EncodeToString [of "''user:wrong''"] by (simp only: Encode_user_wrong)

lemma Decode_x_y: "DecodeString ''eDp5'' = ''x:y''"
  using DecodeString_EncodeToString [of "''x:y''"] by (simp only: Encode_x_y)

lemma Decode_nocolon: "DecodeString ''bm9jb2xvbg=='' = ''nocolon''"
  using DecodeString_EncodeToString [of "''nocolon''"] by (simp only: Encode_nocolon)

lemma Decode_user: "DecodeString ''dXNlcg=='' = ''user''"
  using DecodeString_EncodeToString [of "''user''"] by (simp only: Encode_user)

lemma Decode_a_b_c: "DecodeString ''YTpiOmM='' = ''a:b:c''"
  using DecodeString_EncodeToString [of "''a:b:c''"] by (simp only: Encode_a_b_c)

lemma two_tokens_of_request:
  "Split tok CHR '' '' = [scheme, cred] \<Longrightarrow>
   Split (Header_Get (r_Header (request_with_Authorization tok)) ''Authorization'') CHR '' ''
     = [scheme, cred]"
  by simp

section \<open>Properties of plug-in loading and Proxy\<close>

lemma TrimPrefix_append: "TrimPrefix (p @ rest) p = rest"
  by (simp add: TrimPrefix_def HasPrefix_def)

lemma TrimPrefix_example: "TrimPrefix ''/prefix/get'' ''/prefix'' = ''/get''"
  using TrimPrefix_append [of "''/prefix''" "''/get''"] by simp

lemma LoadPatch_no_file:
  "\<not> Stat_ok env (''./patches/'' @ component @ ''.so'') \<Longrightarrow>
   LoadPatch env component symbol = (None, None)"
  by (simp add: LoadPatch_def)

lemma Proxy_no_override:
  "fst (LoadPatch env ''reverse_proxy'' ''Proxy'') = None \<Longrightarrow>
   snd (Proxy env target prefix) = Inr (ReverseProxy (forward env) (default_Director target))"
  by (cases "LoadPatch env ''reverse_proxy'' ''Proxy''") (simp add: Proxy_def Let_def)

lemma Proxy_override:
  assumes "Stat_ok env ''./patches/reverse_proxy.so''"
    and "plugin_Open env ''./patches/reverse_proxy.so'' = Some pl"
    and "pl ''Proxy'' = Some (ProxyFunc proxy)"
  shows "Proxy env target prefix
           = ([Line ''Loading patched reverse_proxy module''], Inr (proxy target prefix))"
  using assms by (simp add: Proxy_def LoadPatch_def LoadPlugin_def)

section \<open>The claims\<close>

text \<open>
  C1. For every configured non-empty credential pair and every request whose
  \<open>Authorization\<close> header has exactly two space-separated tokens, with \<open>vals\<close> the
  colon-separated fields of the decoded second token: the stage is present; it answers 401
  whatever the wrapped handler does only when the first field differs from the login and
  the second field exists and differs from the password, and in that case it does answer
  401; when the first field equals the login, or the second field equals the password, it
  delegates to the wrapped handler.
\<close>

theorem BasicAuth_rejects_only_when_both_mismatch:
  assumes login: "login \<noteq> []" and password: "password \<noteq> []"
    and two: "Split (Header_Get (r_Header r) ''Authorization'') CHR '' '' = [scheme, cred]"
    and vals: "vals = Split (DecodeString cred) CHR '':''"
  shows "BasicAuth login password = Some (BasicAuth_ServeHTTP login password)
    \<and> ((\<forall>h'. \<exists>w'. BasicAuth_ServeHTTP login password h' w r = Returned w'
                    \<and> w_status w' = Some StatusUnauthorized)
         \<longrightarrow> vals ! 0 \<noteq> login \<and> 1 < length vals \<and> vals ! 1 \<noteq> password)
    \<and> (vals ! 0 \<noteq> login \<and> 1 < length vals \<and> vals ! 1 \<noteq> password
         \<longrightarrow> BasicAuth_ServeHTTP login password h w r
               = Returned (http_Error (log_Println w ''Basic auth'')
                   ''Basic auth header not found or malformed'' StatusUnauthorized))
    \<and> (vals ! 0 = login \<or> (1 < length vals \<and> vals ! 1 = password)
         \<longrightarrow> BasicAuth_ServeHTTP login password h w r
               = h (log_Println w ''Basic auth'') (WithValue r ''Username'' login))"
proof (intro conjI impI)
  show "BasicAuth login password = Some (BasicAuth_ServeHTTP login password)"
    by (rule BasicAuth_Some [OF login password])
next
  have ne: "vals \<noteq> []" unfolding vals by (rule Split_not_Nil)
  assume rej: "\<forall>h'. \<exists>w'. BasicAuth_ServeHTTP login password h' w r = Returned w'
                    \<and> w_status w' = Some StatusUnauthorized"
  then obtain w' where
    "BasicAuth_ServeHTTP login password (\<lambda>w r. Panicked ''wrapped handler'') w r = Returned w'"
    by blast
  then have "mismatch login password vals = Inr True"
    unfolding BasicAuth_two_tokens [OF two] vals
    by (auto split: sum.splits bool.splits)
  then show "vals ! 0 \<noteq> login" and "1 < length vals" and "vals ! 1 \<noteq> password"
    by (simp_all add: mismatch_True_iff)
next
  assume "vals ! 0 \<noteq> login \<and> 1 < length vals \<and> vals ! 1 \<noteq> password"
  then have "mismatch login password vals = Inr True"
    by (simp add: mismatch_both_differ)
  then show "BasicAuth_ServeHTTP login password h w r
               = Returned (http_Error (log_Println w ''Basic auth'')
                   ''Basic auth header not found or malformed'' StatusUnauthorized)"
    unfolding BasicAuth_two_tokens [OF two] vals by simp
next
  have ne: "vals \<noteq> []" unfolding vals by (rule Split_not_Nil)
  assume "vals ! 0 = login \<or> (1 < length vals \<and> vals ! 1 = password)"
  then have "mismatch login password vals = Inr False"
    using ne by (auto simp: mismatch_first_matches mismatch_second_matches)
  then show "BasicAuth_ServeHTTP login password h w r
               = h (log_Println w ''Basic auth'') (WithValue r ''Username'' login)"
    unfolding BasicAuth_two_tokens [OF two] vals by simp
qed

theorem BasicAuth_rejects_only_when_both_mismatch_witness:
  "(\<forall>h w. BasicAuth_ServeHTTP ''user'' ''pass'' h w
            (request_with_Authorization ''Basic dXNlcjp3cm9uZw=='')
          = h (log_Println w ''Basic auth'')
              (WithValue (request_with_Authorization ''Basic dXNlcjp3cm9uZw=='') ''Username'' ''user''))
   \<and> (\<forall>h w. BasicAuth_ServeHTTP ''user'' ''pass'' h w (request_with_Authorization ''Basic eDp5'')
          = Returned (http_Error (log_Println w ''Basic auth'')
                   ''Basic auth header not found or malformed'' StatusUnauthorized))"
proof (intro conjI allI)
  fix h w
  have two: "Split (Header_Get (r_Header (request_with_Authorization ''Basic dXNlcjp3cm9uZw==''))
               ''Authorization'') CHR '' '' = [''Basic'', ''dXNlcjp3cm9uZw=='']"
    by (rule two_tokens_of_request) simp
  have vals: "[''user'', ''wrong''] = Split (DecodeString ''dXNlcjp3cm9uZw=='') CHR '':''"
    by (simp add: Decode_user_wrong)
  show "BasicAuth_ServeHTTP ''user'' ''pass'' h w
            (request_with_Authorization ''Basic dXNlcjp3cm9uZw=='')
          = h (log_Println w ''Basic auth'')
              (WithValue (request_with_Authorization ''Basic dXNlcjp3cm9uZw=='') ''Username'' ''user'')"
    using BasicAuth_rejects_only_when_both_mismatch [OF _ _ two vals, of "''user''" "''pass''" w h]
    by simp
next
  fix h w
  have two: "Split (Header_Get (r_Header (request_with_Authorization ''Basic eDp5''))
               ''Authorization'') CHR '' '' = [''Basic'', ''eDp5'']"
    by (rule two_tokens_of_request) simp
  have vals: "[''x'', ''y''] = Split (DecodeString ''eDp5'') CHR '':''"
    by (simp add: Decode_x_y)
  show "BasicAuth_ServeHTTP ''user'' ''pass'' h w (request_with_Authorization ''Basic eDp5'')
          = Returned (http_Error (log_Println w ''Basic auth'')
                   ''Basic auth header not found or malformed'' StatusUnauthorized)"
    using BasicAuth_rejects_only_when_both_mismatch [OF _ _ two vals, of "''user''" "''pass''" w h]
    by simp
qed

text \<open>
  C2. For every request and configured prefix: when the override of
  \<^verbatim>\<open>src/patches/reverse_proxy.go\<close> is found and loaded, \<open>Proxy\<close> returns its handler,
  which forwards the request with the path \<open>TrimPrefix path prefix\<close>, that is the inbound
  path without the prefix when it starts with it (\<open>/prefix/get\<close> with prefix \<open>/prefix\<close>
  is forwarded as \<open>/get\<close>); when no override is resolved, \<open>Proxy\<close> returns the default
  handler, whose director rewrites the scheme, the host of the URL and the host of the
  request and nothing else, so the forwarded path is the inbound path.
\<close>

theorem Proxy_forwarded_path:
  "(Stat_ok env ''./patches/reverse_proxy.so''
      \<and> plugin_Open env ''./patches/reverse_proxy.so'' = Some pl
      \<and> pl ''Proxy'' = Some (ProxyFunc (patch_Proxy (forward env)))
    \<longrightarrow> snd (Proxy env target prefix) = Inr (patch_Proxy (forward env) target prefix)
        \<and> patch_Proxy (forward env) target prefix w r
            = forward env (patch_Director target prefix r) w
        \<and> url_Path (r_URL (patch_Director target prefix r))
            = TrimPrefix (url_Path (r_URL r)) prefix
        \<and> (\<forall>rest. url_Path (r_URL r) = prefix @ rest
              \<longrightarrow> url_Path (r_URL (patch_Director target prefix r)) = rest))
   \<and> TrimPrefix ''/prefix/get'' ''/prefix'' = ''/get''
   \<and> (fst (LoadPatch env ''reverse_proxy'' ''Proxy'') = None
    \<longrightarrow> snd (Proxy env target prefix)
          = Inr (ReverseProxy (forward env) (default_Director target))
        \<and> ReverseProxy (forward env) (default_Director target) w r
            = forward env (default_Director target r) w
        \<and> default_Director target r
            = r\<lparr>r_URL := (r_URL r)\<lparr>url_Scheme := url_Scheme target,
                                   url_Host := url_Host target\<rparr>,
                 r_Host := url_Host target\<rparr>
        \<and> url_Path (r_URL (default_Director target r)) = url_Path (r_URL r))"
proof (intro conjI impI allI)
  assume a: "Stat_ok env ''./patches/reverse_proxy.so''
      \<and> plugin_Open env ''./patches/reverse_proxy.so'' = Some pl
      \<and> pl ''Proxy'' = Some (ProxyFunc (patch_Proxy (forward env)))"
  then show "snd (Proxy env target prefix) = Inr (patch_Proxy (forward env) target prefix)"
    by (simp add: Proxy_override [of env pl "patch_Proxy (forward env)"])
  show "patch_Proxy (forward env) target prefix w r
            = forward env (patch_Director target prefix r) w"
    by (simp add: patch_Proxy_def ReverseProxy_def)
  show "url_Path (r_URL (patch_Director target prefix r))
            = TrimPrefix (url_Path (r_URL r)) prefix"
    by (simp add: patch_Director_def)
  fix rest
  assume "url_Path (r_URL r) = prefix @ rest"
  then show "url_Path (r_URL (patch_Director target prefix r)) = rest"
    by (simp add: patch_Director_def TrimPrefix_append)
next
  show "TrimPrefix ''/prefix/get'' ''/prefix'' = ''/get''"
    by (rule TrimPrefix_example)
next
  assume "fst (LoadPatch env ''reverse_proxy'' ''Proxy'') = None"
  then show "snd (Proxy env target prefix)
          = Inr (ReverseProxy (forward env) (default_Director target))"
    by (rule Proxy_no_override)
  show "ReverseProxy (forward env) (default_Director target) w r
            = forward env (default_Director target r) w"
    by (simp add: ReverseProxy_def)
  show "default_Director target r
            = r\<lparr>r_URL := (r_URL r)\<lparr>url_Scheme := url_Scheme target,
                                   url_Host := url_Host target\<rparr>,
                 r_Host := url_Host target\<rparr>"
    by (simp add: default_Director_def)
  show "url_Path (r_URL (default_Director target r)) = url_Path (r_URL r)"
    by (simp add: default_Director_def)
qed

theorem Proxy_forwarded_path_witness:
  "(\<forall>target w.
      (\<exists>proxy. snd (Proxy env_with_patch target ''/prefix'') = Inr proxy
         \<and> proxy w (request_to ''/prefix/get'')
             = Returned (w\<lparr>w_status := Some 200, w_body := ''/get''\<rparr>)))
   \<and> (\<forall>target w.
      (\<exists>proxy. snd (Proxy env_without_patch target ''/prefix'') = Inr proxy
         \<and> proxy w (request_to ''/prefix/get'')
             = Returned (w\<lparr>w_status := Some 200, w_body := ''/prefix/get''\<rparr>)))"
proof (intro conjI allI)
  fix target w
  let ?pl = "[''Proxy'' \<mapsto> ProxyFunc (patch_Proxy (forward env_with_patch))]"
  let ?r = "request_to ''/prefix/get''"
  have active: "Stat_ok env_with_patch ''./patches/reverse_proxy.so''
      \<and> plugin_Open env_with_patch ''./patches/reverse_proxy.so'' = Some ?pl
      \<and> ?pl ''Proxy'' = Some (ProxyFunc (patch_Proxy (forward env_with_patch)))"
    by (simp add: env_with_patch_def)
  have path: "url_Path (r_URL ?r) = ''/prefix'' @ ''/get''"
    by (simp add: request_to_def)
  have fw: "forward env_with_patch = echo_path"
    by (simp add: env_with_patch_def)
  from Proxy_forwarded_path [of env_with_patch ?pl target "''/prefix''" w ?r] active path
  have "snd (Proxy env_with_patch target ''/prefix'')
          = Inr (patch_Proxy (forward env_with_patch) target ''/prefix'')"
    and "patch_Proxy (forward env_with_patch) target ''/prefix'' w ?r
          = forward env_with_patch (patch_Director target ''/prefix'' ?r) w"
    and "url_Path (r_URL (patch_Director target ''/prefix'' ?r)) = ''/get''"
    by blast+
  then show "\<exists>proxy. snd (Proxy env_with_patch target ''/prefix'') = Inr proxy
         \<and> proxy w ?r = Returned (w\<lparr>w_status := Some 200, w_body := ''/get''\<rparr>)"
    by (simp add: fw echo_path_def)
next
  fix target w
  let ?r = "request_to ''/prefix/get''"
  have none: "fst (LoadPatch env_without_patch ''reverse_proxy'' ''Proxy'') = None"
    by (simp add: LoadPatch_def env_without_patch_def)
  have fw: "forward env_without_patch = echo_path"
    by (simp add: env_without_patch_def)
  from Proxy_forwarded_path [of env_without_patch _ target "''/prefix''" w ?r] none
  have "snd (Proxy env_without_patch target ''/prefix'')
          = Inr (ReverseProxy (forward env_without_patch) (default_Director target))"
    and "ReverseProxy (forward env_without_patch) (default_Director target) w ?r
            = forward env_without_patch (default_Director target ?r) w"
    and "url_Path (r_URL (default_Director target ?r)) = url_Path (r_URL ?r)"
    by blast+
  then show "\<exists>proxy. snd (Proxy env_without_patch target ''/prefix'') = Inr proxy
         \<and> proxy w ?r = Returned (w\<lparr>w_status := Some 200, w_body := ''/prefix/get''\<rparr>)"
    by (simp add: fw echo_path_def request_to_def)
qed

text \<open>
  C3. Evaluation at a header whose decoded payload has no colon. With the pair
  \<open>user\<close>, \<open>pass\<close> configured, \<open>Authorization: Basic bm9jb2xvbg==\<close> (the payload
  \<open>nocolon\<close>) makes the stage panic on \<open>authValues[1]\<close> instead of answering 401, and
  \<open>Authorization: Basic dXNlcg==\<close> (the payload \<open>user\<close>) makes it call the wrapped
  handler.
\<close>

theorem BasicAuth_missing_colon_panics:
  "BasicAuth ''user'' ''pass'' = Some (BasicAuth_ServeHTTP ''user'' ''pass'')
   \<and> BasicAuth_ServeHTTP ''user'' ''pass'' h w (request_with_Authorization ''Basic bm9jb2xvbg=='')
       = Panicked ''index out of range''
   \<and> BasicAuth_ServeHTTP ''user'' ''pass'' h w (request_with_Authorization ''Basic dXNlcg=='')
       = h (log_Println w ''Basic auth'')
              (WithValue (request_with_Authorization ''Basic dXNlcg=='') ''Username'' ''user'')"
proof (intro conjI)
  show "BasicAuth ''user'' ''pass'' = Some (BasicAuth_ServeHTTP ''user'' ''pass'')"
    by (simp add: BasicAuth_def)
  have two: "Split (Header_Get (r_Header (request_with_Authorization ''Basic bm9jb2xvbg==''))
               ''Authorization'') CHR '' '' = [''Basic'', ''bm9jb2xvbg=='']"
    by (rule two_tokens_of_request) simp
  have m: "mismatch ''user'' ''pass'' (Split (DecodeString ''bm9jb2xvbg=='') CHR '':'')
             = Inl ''index out of range''"
    by (simp add: Decode_nocolon mismatch_def index_def)
  show "BasicAuth_ServeHTTP ''user'' ''pass'' h w (request_with_Authorization ''Basic bm9jb2xvbg=='')
       = Panicked ''index out of range''"
    unfolding BasicAuth_two_tokens [OF two] by (simp add: m)
  have two': "Split (Header_Get (r_Header (request_with_Authorization ''Basic dXNlcg==''))
               ''Authorization'') CHR '' '' = [''Basic'', ''dXNlcg=='']"
    by (rule two_tokens_of_request) simp
  have m': "mismatch ''user'' ''pass'' (Split (DecodeString ''dXNlcg=='') CHR '':'') = Inr False"
    by (simp add: Decode_user mismatch_def index_def)
  show "BasicAuth_ServeHTTP ''user'' ''pass'' h w (request_with_Authorization ''Basic dXNlcg=='')
       = h (log_Println w ''Basic auth'')
              (WithValue (request_with_Authorization ''Basic dXNlcg=='') ''Username'' ''user'')"
    unfolding BasicAuth_two_tokens [OF two'] by (simp add: m')
qed

text \<open>
  C4. For every terminal handler and every list of optional middleware slots, \<open>Chain\<close>
  wraps from the last slot inward: the result is the present middlewares applied in
  declaration order around the terminal handler, so the first declared present middleware
  is the outermost one and a nil slot in front is skipped. A request that goes through
  logging stages reaches the terminal handler with the stages' lines in the declaration
  order of the present slots.
\<close>

theorem Chain_declaration_order:
  "Chain h mws = foldr (\<lambda>mw k. mw k) (present mws) h
   \<and> Chain h (Some mw # mws) = mw (Chain h mws)
   \<and> Chain h (None # mws) = Chain h mws
   \<and> Chain h (map (map_option LogMiddleware) slots) w r
       = h (w\<lparr>w_log := w_log w @ present slots\<rparr>) r"
  using Chain_present [of h mws] Chain_Some [of h mw mws] Chain_None [of h mws]
    Chain_LogMiddleware [of h slots w r]
  by blast

text \<open>
  C5. For every terminal handler and every sequence of slots, a nil slot at any position
  gives the same handler as the sequence with that slot removed.
\<close>

theorem Chain_nil_slot_removed:
  "Chain h (xs @ None # ys) = Chain h (xs @ ys)"
  by (simp add: Chain_append Chain_None)

text \<open>
  C6, as stated, fails: with the login \<open>a:b\<close> and the password \<open>c\<close>, the header
  \<open>Basic base64("a:b:c")\<close> is answered 401 and the wrapped handler is not called, because
  the first colon-separated field, \<open>a\<close>, is not the login and the second, \<open>b\<close>, is not
  the password.
\<close>

theorem BasicAuth_login_with_colon_counterexample:
  "\<not> (\<forall>login password h w r.
        login \<noteq> [] \<and> password \<noteq> [] \<and>
        Header_Get (r_Header r) ''Authorization''
          = ''Basic '' @ EncodeToString (login @ '':'' @ password)
        \<longrightarrow> BasicAuth_ServeHTTP login password h w r
              = h (log_Println w ''Basic auth'') (WithValue r ''Username'' login))"
proof
  assume claim: "\<forall>login password h w r.
        login \<noteq> [] \<and> password \<noteq> [] \<and>
        Header_Get (r_Header r) ''Authorization''
          = ''Basic '' @ EncodeToString (login @ '':'' @ password)
        \<longrightarrow> BasicAuth_ServeHTTP login password h w r
              = h (log_Println w ''Basic auth'') (WithValue r ''Username'' login)"
  let ?r = "request_with_Authorization ''Basic YTpiOmM=''"
  let ?h = "\<lambda>w r. Panicked ''wrapped handler''"
  have hdr: "Header_Get (r_Header ?r) ''Authorization''
               = ''Basic '' @ EncodeToString (''a:b'' @ '':'' @ ''c'')"
    using Encode_a_b_c by simp
  have delegated: "BasicAuth_ServeHTTP ''a:b'' ''c'' ?h fresh_ResponseWriter ?r
                     = Panicked ''wrapped handler''"
    using claim [rule_format, of "''a:b''" "''c''" ?r ?h fresh_ResponseWriter] hdr by simp
  have two: "Split (Header_Get (r_Header ?r) ''Authorization'') CHR '' '' = [''Basic'', ''YTpiOmM='']"
    by (rule two_tokens_of_request) simp
  have m: "mismatch ''a:b'' ''c'' (Split (DecodeString ''YTpiOmM='') CHR '':'') = Inr True"
    by (simp add: Decode_a_b_c mismatch_def index_def)
  have rejected: "BasicAuth_ServeHTTP ''a:b'' ''c'' ?h fresh_ResponseWriter ?r
        = Returned (http_Error (log_Println fresh_ResponseWriter ''Basic auth'')
                   ''Basic auth header not found or malformed'' StatusUnauthorized)"
    unfolding BasicAuth_two_tokens [OF two] by (simp add: m)
  from delegated rejected show False by simp
qed

text \<open>
  C6, amended. For every configured non-empty credential pair whose login contains no
  colon and every request carrying \<open>Authorization: Basic base64(login:password)\<close>, the
  stage is present, delegates to the wrapped handler, and the request it passes on carries
  the login in its context under the key \<open>Username\<close>.
\<close>

theorem BasicAuth_accepts_configured_pair:
  assumes login: "login \<noteq> []" and password: "password \<noteq> []"
    and nocolon: "CHR '':'' \<notin> set login"
    and hdr: "Header_Get (r_Header r) ''Authorization''
                = ''Basic '' @ EncodeToString (login @ '':'' @ password)"
  shows "BasicAuth login password = Some (BasicAuth_ServeHTTP login password)
    \<and> BasicAuth_ServeHTTP login password h w r
          = h (log_Println w ''Basic auth'') (WithValue r ''Username'' login)
    \<and> r_Context (WithValue r ''Username'' login) ''Username'' = Some login"
proof -
  have two: "Split (Header_Get (r_Header r) ''Authorization'') CHR '' ''
               = [''Basic'', EncodeToString (login @ '':'' @ password)]"
    unfolding hdr by (rule Split_Basic)
  have "Split (login @ CHR '':'' # password) CHR '':'' = login # Split password CHR '':''"
    by (rule Split_append_sep [OF nocolon])
  then have first:
    "Split (DecodeString (EncodeToString (login @ '':'' @ password))) CHR '':'' ! 0 = login"
    by (simp add: DecodeString_EncodeToString)
  have m: "mismatch login password
             (Split (DecodeString (EncodeToString (login @ '':'' @ password))) CHR '':'')
           = Inr False"
    by (rule mismatch_first_matches [OF Split_not_Nil first])
  have d: "BasicAuth_ServeHTTP login password h w r
          = h (log_Println w ''Basic auth'') (WithValue r ''Username'' login)"
    unfolding BasicAuth_two_tokens [OF two] m by simp
  have c: "r_Context (WithValue r ''Username'' login) ''Username'' = Some login"
    by (simp add: WithValue_def)
  show ?thesis using BasicAuth_Some [OF login password] d c by blast
qed

theorem BasicAuth_accepts_configured_pair_witness:
  "\<forall>h w. BasicAuth_ServeHTTP ''user'' ''pass'' h w
            (request_with_Authorization ''Basic dXNlcjpwYXNz'')
          = h (log_Println w ''Basic auth'')
              (WithValue (request_with_Authorization ''Basic dXNlcjpwYXNz'') ''Username'' ''user'')
        \<and> r_Context (WithValue (request_with_Authorization ''Basic dXNlcjpwYXNz'')
              ''Username'' ''user'') ''Username'' = Some ''user''"
proof (intro allI)
  fix h w
  have hdr: "Header_Get (r_Header (request_with_Authorization ''Basic dXNlcjpwYXNz''))
                ''Authorization''
                = ''Basic '' @ EncodeToString (''user'' @ '':'' @ ''pass'')"
    using Encode_user_pass by simp
  show "BasicAuth_ServeHTTP ''user'' ''pass'' h w
            (request_with_Authorization ''Basic dXNlcjpwYXNz'')
          = h (log_Println w ''Basic auth'')
              (WithValue (request_with_Authorization ''Basic dXNlcjpwYXNz'') ''Username'' ''user'')
        \<and> r_Context (WithValue (request_with_Authorization ''Basic dXNlcjpwYXNz'')
              ''Username'' ''user'') ''Username'' = Some ''user''"
    using BasicAuth_accepts_configured_pair [OF _ _ _ hdr, of h w]
    by simp
qed

text \<open>
  C7. Evaluation at a credential mismatch. With the pair \<open>user\<close>, \<open>pass\<close> configured and
  a response nothing was written to, \<open>Authorization: Basic eDp5\<close> (the payload \<open>x:y\<close>)
  is answered 401 with no \<open>WWW-Authenticate\<close> header, whereas a header of one token is
  answered 401 with \<open>WWW-Authenticate: realm=proxy\<close>.
\<close>

theorem BasicAuth_mismatch_sends_no_challenge:
  "(\<exists>w'. BasicAuth_ServeHTTP ''user'' ''pass'' h fresh_ResponseWriter
            (request_with_Authorization ''Basic eDp5'') = Returned w'
       \<and> w_status w' = Some 401
       \<and> w_Header w' ''WWW-Authenticate'' = None)
   \<and> (\<exists>w'. BasicAuth_ServeHTTP ''user'' ''pass'' h fresh_ResponseWriter
            (request_with_Authorization ''Basic'') = Returned w'
       \<and> w_status w' = Some 401
       \<and> w_Header w' ''WWW-Authenticate'' = Some [''realm=proxy''])"
proof (intro conjI)
  have two: "Split (Header_Get (r_Header (request_with_Authorization ''Basic eDp5''))
               ''Authorization'') CHR '' '' = [''Basic'', ''eDp5'']"
    by (rule two_tokens_of_request) simp
  have m: "mismatch ''user'' ''pass'' (Split (DecodeString ''eDp5'') CHR '':'') = Inr True"
    by (simp add: Decode_x_y mismatch_def index_def)
  have "BasicAuth_ServeHTTP ''user'' ''pass'' h fresh_ResponseWriter
            (request_with_Authorization ''Basic eDp5'')
        = Returned (http_Error (log_Println fresh_ResponseWriter ''Basic auth'')
                   ''Basic auth header not found or malformed'' StatusUnauthorized)"
    unfolding BasicAuth_two_tokens [OF two] by (simp add: m)
  then show "\<exists>w'. BasicAuth_ServeHTTP ''user'' ''pass'' h fresh_ResponseWriter
            (request_with_Authorization ''Basic eDp5'') = Returned w'
       \<and> w_status w' = Some 401
       \<and> w_Header w' ''WWW-Authenticate'' = None"
    by (simp add: http_Error_def log_Println_def fresh_ResponseWriter_def Header_Set_def
        StatusUnauthorized_def)
next
  have one: "length (Split (Header_Get (r_Header (request_with_Authorization ''Basic''))
               ''Authorization'') CHR '' '') \<noteq> 2"
    by simp
  show "\<exists>w'. BasicAuth_ServeHTTP ''user'' ''pass'' h fresh_ResponseWriter
            (request_with_Authorization ''Basic'') = Returned w'
       \<and> w_status w' = Some 401
       \<and> w_Header w' ''WWW-Authenticate'' = Some [''realm=proxy'']"
    unfolding BasicAuth_not_two_tokens [OF one]
    by (simp add: http_Error_def log_Println_def fresh_ResponseWriter_def Header_Set_def
        Header_Add_def StatusUnauthorized_def)
qed

text \<open>
  C8. For every component and symbol, when \<^verbatim>\<open>os.Stat\<close> finds no file at
  \<open>./patches/<component>.so\<close>, \<open>LoadPatch\<close> returns nil and no error; for the component
  \<open>reverse_proxy\<close> its caller \<open>Proxy\<close> then logs nothing and returns the default
  handler.
\<close>

theorem LoadPatch_absent_file:
  assumes "\<not> Stat_ok env (''./patches/'' @ component @ ''.so'')"
  shows "LoadPatch env component symbol = (None, None)
    \<and> (component = ''reverse_proxy''
        \<longrightarrow> Proxy env target prefix
            = ([], Inr (ReverseProxy (forward env) (default_Director target))))"
  using assms by (auto simp: LoadPatch_def Proxy_def)

theorem LoadPatch_absent_file_witness:
  "\<forall>target prefix.
     LoadPatch env_without_patch ''reverse_proxy'' ''Proxy'' = (None, None)
     \<and> Proxy env_without_patch target prefix
         = ([], Inr (ReverseProxy echo_path (default_Director target)))"
proof (intro allI)
  fix target prefix
  have absent: "\<not> Stat_ok env_without_patch (''./patches/'' @ ''reverse_proxy'' @ ''.so'')"
    by (simp add: env_without_patch_def)
  have fw: "forward env_without_patch = echo_path"
    by (simp add: env_without_patch_def)
  show "LoadPatch env_without_patch ''reverse_proxy'' ''Proxy'' = (None, None)
     \<and> Proxy env_without_patch target prefix
         = ([], Inr (ReverseProxy echo_path (default_Director target)))"
    using LoadPatch_absent_file [OF absent, of "''Proxy''" target prefix]
    by (simp add: fw)
qed

text \<open>
  C9. \<open>LoadMiddlewarePlugin\<close> of the empty path is a nil middleware. For a non-empty
  path whose plug-in does not load, or exports no \<open>Middleware\<close>, or exports one that is
  not a \<open>func(http.Handler) http.Handler\<close>, it is a fatal exit, and so is \<open>main\<close> when
  that path is the pre plug-in or the post plug-in: no handler is served.
\<close>

theorem LoadMiddlewarePlugin_absent_or_fatal:
  "LoadMiddlewarePlugin env [] = Inr None
   \<and> (path \<noteq> []
        \<and> (plugin_Open env path = None
            \<or> (\<exists>pl. plugin_Open env path = Some pl
                  \<and> (pl ''Middleware'' = None
                      \<or> (\<exists>s. pl ''Middleware'' = Some s \<and> (\<forall>mw. s \<noteq> MiddlewareFunc mw)))))
      \<longrightarrow> isl (LoadMiddlewarePlugin env path)
          \<and> isl (main_handler env rpURL prefix basicUser basicPassword path postPlugin)
          \<and> isl (main_handler env rpURL prefix basicUser basicPassword prePlugin path))"
proof (intro conjI impI)
  show "LoadMiddlewarePlugin env [] = Inr None"
    by (simp add: LoadMiddlewarePlugin_def)
next
  assume a: "path \<noteq> []
        \<and> (plugin_Open env path = None
            \<or> (\<exists>pl. plugin_Open env path = Some pl
                  \<and> (pl ''Middleware'' = None
                      \<or> (\<exists>s. pl ''Middleware'' = Some s \<and> (\<forall>mw. s \<noteq> MiddlewareFunc mw)))))"
  then show f: "isl (LoadMiddlewarePlugin env path)"
    by (auto simp: LoadMiddlewarePlugin_def LoadPlugin_def split: Symbol.splits)
  then show "isl (main_handler env rpURL prefix basicUser basicPassword path postPlugin)"
    by (auto simp: main_handler_def isl_def split: sum.splits)
  from f show "isl (main_handler env rpURL prefix basicUser basicPassword prePlugin path)"
    by (auto simp: main_handler_def isl_def split: sum.splits)
qed

theorem LoadMiddlewarePlugin_absent_or_fatal_witness:
  "\<forall>rpURL prefix basicUser basicPassword other.
     LoadMiddlewarePlugin env_with_patch [] = Inr None
     \<and> isl (LoadMiddlewarePlugin env_with_patch ''missing.so'')
     \<and> isl (LoadMiddlewarePlugin env_with_patch ''./patches/reverse_proxy.so'')
     \<and> isl (main_handler env_with_patch rpURL prefix basicUser basicPassword ''missing.so'' other)
     \<and> isl (main_handler env_with_patch rpURL prefix basicUser basicPassword other
               ''./patches/reverse_proxy.so'')"
proof (intro allI)
  fix rpURL prefix basicUser basicPassword other
  have missing: "''missing.so'' \<noteq> []
        \<and> (plugin_Open env_with_patch ''missing.so'' = None
            \<or> (\<exists>pl. plugin_Open env_with_patch ''missing.so'' = Some pl
                  \<and> (pl ''Middleware'' = None
                      \<or> (\<exists>s. pl ''Middleware'' = Some s \<and> (\<forall>mw. s \<noteq> MiddlewareFunc mw)))))"
    by (simp add: env_with_patch_def)
  have nosym: "''./patches/reverse_proxy.so'' \<noteq> []
        \<and> (plugin_Open env_with_patch ''./patches/reverse_proxy.so'' = None
            \<or> (\<exists>pl. plugin_Open env_with_patch ''./patches/reverse_proxy.so'' = Some pl
                  \<and> (pl ''Middleware'' = None
                      \<or> (\<exists>s. pl ''Middleware'' = Some s \<and> (\<forall>mw. s \<noteq> MiddlewareFunc mw)))))"
    by (simp add: env_with_patch_def)
  show "LoadMiddlewarePlugin env_with_patch [] = Inr None
     \<and> isl (LoadMiddlewarePlugin env_with_patch ''missing.so'')
     \<and> isl (LoadMiddlewarePlugin env_with_patch ''./patches/reverse_proxy.so'')
     \<and> isl (main_handler env_with_patch rpURL prefix basicUser basicPassword ''missing.so'' other)
     \<and> isl (main_handler env_with_patch rpURL prefix basicUser basicPassword other
               ''./patches/reverse_proxy.so'')"
    using
      LoadMiddlewarePlugin_absent_or_fatal [of env_with_patch "''missing.so''" rpURL prefix
        basicUser basicPassword other other]
      LoadMiddlewarePlugin_absent_or_fatal [of env_with_patch "''./patches/reverse_proxy.so''"
        rpURL prefix basicUser basicPassword other other]
      missing nosym
    by blast
qed

text \<open>
  C10. For every configured non-empty credential pair and every request whose
  \<open>Authorization\<close> header has exactly two space-separated tokens, when the first
  colon-separated field of the decoded payload equals the login, the condition of line 52
  is false without reading the second field, and the stage delegates to the wrapped
  handler whatever the password is; that holds also when the payload has no colon, where
  there is one field only and reading a second one would be out of range.
\<close>

theorem BasicAuth_login_match_skips_password:
  assumes login: "login \<noteq> []" and password: "password \<noteq> []"
    and two: "Split (Header_Get (r_Header r) ''Authorization'') CHR '' '' = [scheme, cred]"
    and first: "Split (DecodeString cred) CHR '':'' ! 0 = login"
  shows "BasicAuth login password = Some (BasicAuth_ServeHTTP login password)
    \<and> mismatch login password (Split (DecodeString cred) CHR '':'') = Inr False
    \<and> BasicAuth_ServeHTTP login password h w r
          = h (log_Println w ''Basic auth'') (WithValue r ''Username'' login)
    \<and> (CHR '':'' \<notin> set (DecodeString cred)
          \<longrightarrow> length (Split (DecodeString cred) CHR '':'') = 1
              \<and> index (Split (DecodeString cred) CHR '':'') 1 = Inl ''index out of range'')"
proof -
  have m: "mismatch login password (Split (DecodeString cred) CHR '':'') = Inr False"
    by (rule mismatch_first_matches [OF Split_not_Nil first])
  have d: "BasicAuth_ServeHTTP login password h w r
          = h (log_Println w ''Basic auth'') (WithValue r ''Username'' login)"
    unfolding BasicAuth_two_tokens [OF two] by (simp add: m)
  have n: "CHR '':'' \<notin> set (DecodeString cred)
          \<longrightarrow> length (Split (DecodeString cred) CHR '':'') = 1
              \<and> index (Split (DecodeString cred) CHR '':'') 1 = Inl ''index out of range''"
    by (simp add: Split_no_sep index_def)
  show ?thesis
    using BasicAuth_Some [OF login password] m d n by blast
qed

theorem BasicAuth_login_match_skips_password_witness:
  "\<forall>h w. BasicAuth_ServeHTTP ''user'' ''pass'' h w (request_with_Authorization ''Basic dXNlcg=='')
          = h (log_Println w ''Basic auth'')
              (WithValue (request_with_Authorization ''Basic dXNlcg=='') ''Username'' ''user'')
        \<and> length (Split (DecodeString ''dXNlcg=='') CHR '':'') = 1"
proof (intro allI)
  fix h w
  have two: "Split (Header_Get (r_Header (request_with_Authorization ''Basic dXNlcg==''))
               ''Authorization'') CHR '' '' = [''Basic'', ''dXNlcg=='']"
    by (rule two_tokens_of_request) simp
  have first: "Split (DecodeString ''dXNlcg=='') CHR '':'' ! 0 = ''user''"
    by (simp add: Decode_user)
  have nocolon: "CHR '':'' \<notin> set (DecodeString ''dXNlcg=='')"
    by (simp add: Decode_user)
  show "BasicAuth_ServeHTTP ''user'' ''pass'' h w (request_with_Authorization ''Basic dXNlcg=='')
          = h (log_Println w ''Basic auth'')
              (WithValue (request_with_Authorization ''Basic dXNlcg=='') ''Username'' ''user'')
        \<and> length (Split (DecodeString ''dXNlcg=='') CHR '':'') = 1"
    using BasicAuth_login_match_skips_password [OF _ _ two first, of "''pass''" h w] nocolon
    by simp
qed

end
